theory Spec2Isabelle
  imports Main
begin

section \<open>The image-to-video notebook\<close>

text \<open>
  The repository is one Jupyter notebook, \<^verbatim>\<open>02_image_to_video_generation.ipynb\<close>, with
  two code cells of interest: the submission cell, which builds \<^verbatim>\<open>model_input\<close> and calls
  \<^verbatim>\<open>bedrock_runtime.start_async_invoke\<close> inside a \<^verbatim>\<open>try\<close>/\<^verbatim>\<open>except Exception\<close> block, and the
  monitoring cell, which calls \<^verbatim>\<open>amazon_video_util.monitor_and_download_video\<close>.
  The cells are embedded as functions on an explicit notebook state: the kernel's global
  variables that one cell passes to the next, and the trace of the calls made to the
  outside world (the AWS clients, the logger, the helper module).
\<close>

subsection \<open>Values\<close>

text \<open>
  Exceptions are values. Every class below derives from Python's \<^verbatim>\<open>Exception\<close>, so the
  submission cell's \<^verbatim>\<open>except Exception\<close> clause catches each of them.
\<close>

datatype py_exception =
    ClientError string
  | KeyError string
  | NameError string
  | OSError string

text \<open>A global name of the kernel is unbound until a cell assigns it.\<close>

datatype 'a var = Unbound | Bound 'a

text \<open>
  The request dictionary \<^verbatim>\<open>model_input\<close>, one record per nested dictionary. The key
  \<^verbatim>\<open>"text"\<close> of \<^verbatim>\<open>textToVideoParams\<close> is the field \<open>text_field\<close>.
\<close>

record image_source =
  bytes :: string

record image =
  format :: string
  source :: image_source

record text_to_video_params =
  text_field :: string
  images :: "image list"

record video_generation_config =
  durationSeconds :: int
  fps :: int
  dimension :: string
  seed :: int

record model_input =
  taskType :: string
  textToVideoParams :: text_to_video_params
  videoGenerationConfig :: video_generation_config

text \<open>
  \<^verbatim>\<open>outputDataConfig={"s3OutputDataConfig": {"s3Uri": f"s3://{s3_destination_bucket}"}}\<close>
\<close>

record s3_output_data_config =
  s3Uri :: string

record output_data_config =
  s3OutputDataConfig :: s3_output_data_config

text \<open>
  The response of \<^verbatim>\<open>start_async_invoke\<close> is a dictionary; the cell reads only its key
  \<^verbatim>\<open>"invocationArn"\<close>. It is an association list from keys to string values.
\<close>

type_synonym response = "(string \<times> string) list"

subsection \<open>The outside world\<close>

text \<open>
  The calls the cells make, in the order they are made. \<open>LogInfoJson\<close> is
  \<^verbatim>\<open>logger.info(json.dumps(invocation, indent=2, default=str))\<close>.
\<close>

datatype event =
    CreateBucket string
  | OpenRead string
  | StartAsyncInvoke string model_input output_data_config
  | LogInfo string
  | LogInfoJson response
  | LogError py_exception
  | SaveInvocationInfo response model_input
  | MonitorAndDownloadVideo string string

text \<open>
  The external collaborators, as parameters: the S3 client's \<^verbatim>\<open>create_bucket\<close>, reading the
  image file, \<^verbatim>\<open>base64.b64encode(...).decode("utf-8")\<close>, the Bedrock Runtime client's
  \<^verbatim>\<open>start_async_invoke\<close>, and the two functions of \<^verbatim>\<open>amazon_video_util\<close> that the notebook
  calls. Each fallible call returns either the exception it raises or its value.
  \<^verbatim>\<open>monitor_and_download_video\<close> returns the local file path, or Python's \<^verbatim>\<open>None\<close>.
\<close>

record services =
  create_bucket :: "string \<Rightarrow> py_exception + unit"
  read_bytes :: "string \<Rightarrow> py_exception + string"
  b64encode :: "string \<Rightarrow> string"
  start_async_invoke :: "string \<Rightarrow> model_input \<Rightarrow> output_data_config \<Rightarrow> py_exception + response"
  save_invocation_info :: "response \<Rightarrow> model_input \<Rightarrow> py_exception + unit"
  monitor_and_download_video :: "string \<Rightarrow> string \<Rightarrow> py_exception + string option"

text \<open>
  The notebook state: the globals \<^verbatim>\<open>invocation_arn\<close> and \<^verbatim>\<open>local_file_path\<close>, and the trace.
\<close>

record notebook =
  invocation_arn :: "string var"
  local_file_path :: "string option var"
  trace :: "event list"

definition emit :: "event \<Rightarrow> notebook \<Rightarrow> notebook" where
  "emit ev nb = nb\<lparr>trace := trace nb @ [ev]\<rparr>"

subsection \<open>The submission cell\<close>

text \<open>
  The first code cell sets \<^verbatim>\<open>MODEL_ID\<close>; the call of \<^verbatim>\<open>start_async_invoke\<close> writes the same
  string as a literal.
\<close>

definition MODEL_ID :: string where
  "MODEL_ID = ''amazon.nova-reel-v1:0''"

text \<open>
  \<^verbatim>\<open>random.randint(a, b)\<close> returns an integer \<open>N\<close> with \<open>a <= N <= b\<close>, both end points
  included: \<open>randint a b n\<close> says that \<open>n\<close> is a value the call can return.
\<close>

definition randint :: "int \<Rightarrow> int \<Rightarrow> int \<Rightarrow> bool" where
  "randint a b n = (a \<le> n \<and> n \<le> b)"

text \<open>The seed the cell draws: \<^verbatim>\<open>random.randint(0, 2147483648)\<close>.\<close>

definition seed_drawn :: "int \<Rightarrow> bool" where
  "seed_drawn n = randint 0 2147483648 n"

text \<open>The dictionary literal assigned to \<^verbatim>\<open>model_input\<close>.\<close>

definition build_model_input :: "string \<Rightarrow> string \<Rightarrow> int \<Rightarrow> model_input" where
  "build_model_input video_prompt input_image_base64 seed_value =
     \<lparr>taskType = ''TEXT_VIDEO'',
      textToVideoParams =
        \<lparr>text_field = video_prompt,
         images = [\<lparr>format = ''png'', source = \<lparr>bytes = input_image_base64\<rparr>\<rparr>]\<rparr>,
      videoGenerationConfig =
        \<lparr>durationSeconds = 6, fps = 24, dimension = ''1280x720'', seed = seed_value\<rparr>\<rparr>"

definition build_output_data_config :: "string \<Rightarrow> output_data_config" where
  "build_output_data_config s3_destination_bucket =
     \<lparr>s3OutputDataConfig = \<lparr>s3Uri = ''s3://'' @ s3_destination_bucket\<rparr>\<rparr>"

text \<open>
  The body of the \<^verbatim>\<open>try\<close> block. It returns the exception raised inside it, if any, with
  the state at that point: what was assigned and called before the raise stays.
  \<^verbatim>\<open>invocation["invocationArn"]\<close> raises \<^verbatim>\<open>KeyError\<close> when the key is missing.
\<close>

definition try_body ::
  "services \<Rightarrow> model_input \<Rightarrow> string \<Rightarrow> notebook \<Rightarrow> py_exception option \<times> notebook" where
  "try_body svc mi s3_destination_bucket nb =
     (let odc = build_output_data_config s3_destination_bucket;
          nb1 = emit (StartAsyncInvoke MODEL_ID mi odc) nb
      in case start_async_invoke svc MODEL_ID mi odc of
           Inl e \<Rightarrow> (Some e, nb1)
         | Inr invocation \<Rightarrow>
             (case map_of invocation ''invocationArn'' of
                None \<Rightarrow> (Some (KeyError ''invocationArn''), nb1)
              | Some arn \<Rightarrow>
                  (let nb2 = nb1\<lparr>invocation_arn := Bound arn\<rparr>;
                       nb3 = emit (LogInfo (CHR 0x0A # ''Response:'')) nb2;
                       nb4 = emit (LogInfoJson invocation) nb3;
                       nb5 = emit (SaveInvocationInfo invocation mi) nb4
                   in case save_invocation_info svc invocation mi of
                        Inl e \<Rightarrow> (Some e, nb5)
                      | Inr _ \<Rightarrow> (None, nb5))))"

text \<open>
  The \<^verbatim>\<open>try\<close> statement with its handler \<^verbatim>\<open>except Exception as e: logger.error(e)\<close>: the
  handler logs the exception and the statement ends normally.
\<close>

definition submit :: "services \<Rightarrow> model_input \<Rightarrow> string \<Rightarrow> notebook \<Rightarrow> notebook" where
  "submit svc mi s3_destination_bucket nb =
     (case try_body svc mi s3_destination_bucket nb of
        (None, nb') \<Rightarrow> nb'
      | (Some e, nb') \<Rightarrow> emit (LogError e) nb')"

text \<open>
  The whole cell, from \<^verbatim>\<open>s3_client.create_bucket\<close> on (the imports at the top of the cell
  and the two \<^verbatim>\<open>boto3.client\<close> constructions are taken to succeed). The statements before the \<^verbatim>\<open>try\<close> have no handler:
  an exception of theirs leaves the cell (\<open>Inl\<close>, with the state at the raise).
  \<open>seed_value\<close> is the value \<^verbatim>\<open>random.randint\<close> returned in this run.
\<close>

definition submission_cell ::
  "services \<Rightarrow> string \<Rightarrow> string \<Rightarrow> string \<Rightarrow> int \<Rightarrow> notebook \<Rightarrow> py_exception \<times> notebook + notebook" where
  "submission_cell svc s3_destination_bucket input_image_path video_prompt seed_value nb =
     (let nb1 = emit (CreateBucket s3_destination_bucket) nb
      in case create_bucket svc s3_destination_bucket of
           Inl e \<Rightarrow> Inl (e, nb1)
         | Inr _ \<Rightarrow>
             (let nb2 = emit (OpenRead input_image_path) nb1
              in case read_bytes svc input_image_path of
                   Inl e \<Rightarrow> Inl (e, nb2)
                 | Inr input_image_bytes \<Rightarrow>
                     (let input_image_base64 = b64encode svc input_image_bytes;
                          mi = build_model_input video_prompt input_image_base64 seed_value
                      in Inr (submit svc mi s3_destination_bucket nb2))))"

subsection \<open>The monitoring cell\<close>

text \<open>
  \<^verbatim>\<open>local_file_path = amazon_video_util.monitor_and_download_video(invocation_arn, "output")\<close>.
  The states of the model are those of a kernel in which the import statements at the top
  of the submission cell have run, so the name \<^verbatim>\<open>amazon_video_util\<close> is bound and the state
  holds no binding for it. (On a kernel where they have not run, Python raises
  \<^verbatim>\<open>NameError\<close> for \<^verbatim>\<open>amazon_video_util\<close> before it reads \<^verbatim>\<open>invocation_arn\<close>; that kernel is
  outside the model.) With the module bound, \<^verbatim>\<open>invocation_arn\<close> is unbound when the
  submission cell raised before its \<^verbatim>\<open>try\<close> or caught an exception there, and reading it
  raises \<^verbatim>\<open>NameError\<close>; the cell has no handler.
\<close>

definition monitoring_cell :: "services \<Rightarrow> notebook \<Rightarrow> py_exception \<times> notebook + notebook" where
  "monitoring_cell svc nb =
     (case invocation_arn nb of
        Unbound \<Rightarrow> Inl (NameError ''invocation_arn'', nb)
      | Bound arn \<Rightarrow>
          (let nb1 = emit (MonitorAndDownloadVideo arn ''output'') nb
           in case monitor_and_download_video svc arn ''output'' of
                Inl e \<Rightarrow> Inl (e, nb1)
              | Inr p \<Rightarrow> Inr (nb1\<lparr>local_file_path := Bound p\<rparr>)))"

section \<open>The helper module, from its specification\<close>

text \<open>
  The notebook imports \<^verbatim>\<open>amazon_video_util\<close> and calls its \<^verbatim>\<open>save_invocation_info\<close> and
  \<^verbatim>\<open>monitor_and_download_video\<close>; the module's file is not among the sources. The
  specification describes what it has to do as four components (Job Submitter, Status
  Poller, Artifact Fetcher, Invocation Ledger). The definitions of this section follow
  those descriptions.
\<close>

subsection \<open>Jobs and poll results\<close>

datatype status = IN_PROGRESS | COMPLETED | FAILED

fun terminal :: "status \<Rightarrow> bool" where
  "terminal IN_PROGRESS = False"
| "terminal COMPLETED = True"
| "terminal FAILED = True"

record job =
  handle :: string
  request_parameters :: model_input
  submission_timestamp :: nat
  job_status :: status
  output_location :: "string option"

record poll_result =
  status_of :: status
  failure_reason :: "string option"
  output_uri :: "string option"

text \<open>
  Modelled from the spec: the Job state machine (the poller of \<^verbatim>\<open>amazon_video_util\<close> is
  missing). A Job is "mutated only by the Poller updating status; immutable once
  terminal": a poll result updates a job that is in progress and leaves a terminal one
  as it is.
\<close>

definition poller_update :: "poll_result \<Rightarrow> job \<Rightarrow> job" where
  "poller_update r j =
     (if terminal (job_status j) then j
      else j\<lparr>job_status := status_of r, output_location := output_uri r\<rparr>)"

text \<open>The states a job goes through while a sequence of poll results is applied to it.\<close>

fun job_history :: "job \<Rightarrow> poll_result list \<Rightarrow> job list" where
  "job_history j [] = [j]"
| "job_history j (r # rs) = j # job_history (poller_update r j) rs"

text \<open>
  The number of steps of a status sequence that lead from \<open>IN_PROGRESS\<close> to a terminal state,
  and whether some step leads from a terminal state to \<open>IN_PROGRESS\<close>.
\<close>

fun terminal_transitions :: "status list \<Rightarrow> nat" where
  "terminal_transitions (a # b # ss) =
     (if a = IN_PROGRESS \<and> terminal b then 1 else 0) + terminal_transitions (b # ss)"
| "terminal_transitions _ = 0"

fun reenters_in_progress :: "status list \<Rightarrow> bool" where
  "reenters_in_progress (a # b # ss) =
     ((terminal a \<and> b = IN_PROGRESS) \<or> reenters_in_progress (b # ss))"
| "reenters_in_progress _ = False"

subsection \<open>Status Poller\<close>

text \<open>
  The remote service's answer to one status query: a transient failure of the query
  (network failure), or a poll result. The service is the sequence of its answers:
  \<open>remote k\<close> answers the \<open>k\<close>-th query made for the handle.
\<close>

datatype query_reply = TransientError | Reply poll_result

text \<open>
  Modelled from the spec: one poll of the Status Poller (missing:
  \<^verbatim>\<open>amazon_video_util.monitor_and_download_video\<close>). "Transient query errors (network
  failure) are retried with bounded attempts before surfacing a PollError": the query is
  made at most \<open>attempts\<close> times, \<open>None\<close> is the \<open>PollError\<close>. The second component is the index
  of the next query.
\<close>

fun query_with_retry :: "(nat \<Rightarrow> query_reply) \<Rightarrow> nat \<Rightarrow> nat \<Rightarrow> poll_result option \<times> nat" where
  "query_with_retry remote 0 k = (None, k)"
| "query_with_retry remote (Suc n) k =
     (case remote k of
        Reply r \<Rightarrow> (Some r, Suc k)
      | TransientError \<Rightarrow> query_with_retry remote n (Suc k))"

text \<open>How a poll sequence ended.\<close>

datatype poll_end = Terminal | TimedOut | PollError

text \<open>
  Modelled from the spec: the Status Poller (missing:
  \<^verbatim>\<open>amazon_video_util.monitor_and_download_video\<close>). It "produces a lazy, restartable
  sequence of PollResult values, querying the remote service at a configurable interval
  until a terminal status is observed or a caller-supplied timeout elapses". The timeout
  is the number \<open>polls\<close> of intervals it allows. The result is the sequence produced, how it
  ended, and the index of the next query.
\<close>

fun poll ::
  "(nat \<Rightarrow> query_reply) \<Rightarrow> nat \<Rightarrow> nat \<Rightarrow> nat \<Rightarrow> poll_result list \<times> poll_end \<times> nat" where
  "poll remote attempts 0 k = ([], TimedOut, k)"
| "poll remote attempts (Suc polls) k =
     (case query_with_retry remote attempts k of
        (None, k') \<Rightarrow> ([], PollError, k')
      | (Some r, k') \<Rightarrow>
          (if terminal (status_of r) then ([r], Terminal, k')
           else (case poll remote attempts polls k' of
                   (rs, e, k'') \<Rightarrow> (r # rs, e, k''))))"


subsection \<open>Artifact Fetcher and the monitoring workflow\<close>

datatype fetch_error = ObjectMissing | PathUnwritable | TransferInterrupted




subsection \<open>Invocation Ledger\<close>

text \<open>
  Modelled from the spec: the Invocation Ledger (missing:
  \<^verbatim>\<open>amazon_video_util.save_invocation_info\<close>), an "append-only log of submitted jobs, keyed
  by handle", persisted as "one record per line". A line is a submission entry, which
  mirrors the job at submission time, or a completion entry, which holds a handle's final
  status.
\<close>

datatype ledger_line = Submission job | Completion string status

type_synonym ledger = "ledger_line list"

fun line_handle :: "ledger_line \<Rightarrow> string" where
  "line_handle (Submission j) = handle j"
| "line_handle (Completion h _) = h"

fun is_completion_of :: "string \<Rightarrow> ledger_line \<Rightarrow> bool" where
  "is_completion_of h (Completion h' _) = (h' = h)"
| "is_completion_of h (Submission _) = False"

text \<open>Modelled from the spec: "\<open>record(job)\<close> appends a submission entry".\<close>

definition ledger_record :: "job \<Rightarrow> ledger \<Rightarrow> ledger" where
  "ledger_record j led = led @ [Submission j]"

text \<open>
  Modelled from the spec: "\<open>update(handle, finalStatus)\<close> appends or amends a completion
  entry": the handle's completion entry is amended when there is one, and appended
  otherwise.
\<close>

definition ledger_update :: "string \<Rightarrow> status \<Rightarrow> ledger \<Rightarrow> ledger" where
  "ledger_update h s led =
     (if list_ex (is_completion_of h) led
      then map (\<lambda>l. if is_completion_of h l then Completion h s else l) led
      else led @ [Completion h s])"

text \<open>
  Modelled from the spec: the lookup by handle of the testable property "\<open>record\<close>
  followed immediately by a lookup by handle returns the recorded entry": the most
  recent submission entry of the handle.
\<close>

fun ledger_lookup :: "string \<Rightarrow> ledger \<Rightarrow> job option" where
  "ledger_lookup h [] = None"
| "ledger_lookup h (Submission j # led) =
     (case ledger_lookup h led of
        Some j' \<Rightarrow> Some j'
      | None \<Rightarrow> (if handle j = h then Some j else None))"
| "ledger_lookup h (Completion _ _ # led) = ledger_lookup h led"

text \<open>
  Modelled from the spec: "ledger failures are logged and swallowed, since bookkeeping
  must not block the generation workflow". The ledger with its log of \<open>LedgerError\<close>s; an
  operation whose write to durable storage fails (\<open>written = False\<close>) leaves the entries
  as they are, logs the error and returns normally.
\<close>

record ledger_state =
  entries :: ledger
  ledger_errors :: "string list"

definition ledger_apply :: "bool \<Rightarrow> string \<Rightarrow> (ledger \<Rightarrow> ledger) \<Rightarrow> ledger_state \<Rightarrow> ledger_state" where
  "ledger_apply written what f ls =
     (if written then ls\<lparr>entries := f (entries ls)\<rparr>
      else ls\<lparr>ledger_errors := ledger_errors ls @ [''LedgerError: '' @ what]\<rparr>)"

definition record_job :: "bool \<Rightarrow> job \<Rightarrow> ledger_state \<Rightarrow> ledger_state" where
  "record_job written j = ledger_apply written ''record'' (ledger_record j)"

definition update_job :: "bool \<Rightarrow> string \<Rightarrow> status \<Rightarrow> ledger_state \<Rightarrow> ledger_state" where
  "update_job written h s = ledger_apply written ''update'' (ledger_update h s)"

subsection \<open>Reading the trace\<close>

text \<open>The requests sent to the remote service: the \<^verbatim>\<open>start_async_invoke\<close> calls of a trace.\<close>

fun is_start_async_invoke :: "event \<Rightarrow> bool" where
  "is_start_async_invoke (StartAsyncInvoke _ _ _) = True"
| "is_start_async_invoke _ = False"

definition start_calls :: "event list \<Rightarrow> nat" where
  "start_calls evs = length (filter is_start_async_invoke evs)"

fun is_save_invocation_info :: "event \<Rightarrow> bool" where
  "is_save_invocation_info (SaveInvocationInfo _ _) = True"
| "is_save_invocation_info _ = False"

text \<open>The events a cell added to the trace of the state it started from.\<close>

definition new_events :: "notebook \<Rightarrow> notebook \<Rightarrow> event list" where
  "new_events nb nb' = drop (length (trace nb)) (trace nb')"

subsection \<open>Example collaborators\<close>

text \<open>
  Concrete collaborators for evaluating the cells: a service that accepts every request
  and answers with an ARN, one that is unreachable, and one whose ledger helper fails.
\<close>

definition example_arn :: string where
  "example_arn = ''arn:aws:bedrock:us-east-1:111122223333:async-invoke/job-123''"

definition services_ok :: services where
  "services_ok =
     \<lparr>create_bucket = (\<lambda>_. Inr ()),
      read_bytes = (\<lambda>_. Inr ''PNG''),
      b64encode = (\<lambda>_. ''UE5H''),
      start_async_invoke = (\<lambda>_ _ _. Inr [(''invocationArn'', example_arn)]),
      save_invocation_info = (\<lambda>_ _. Inr ()),
      monitor_and_download_video = (\<lambda>_ _. Inr (Some ''output/job-123.mp4''))\<rparr>"

definition services_down :: services where
  "services_down =
     services_ok\<lparr>start_async_invoke := (\<lambda>_ _ _. Inl (ClientError ''ServiceUnavailableException''))\<rparr>"

definition services_ledger_fails :: services where
  "services_ledger_fails =
     services_ok\<lparr>save_invocation_info := (\<lambda>_ _. Inl (OSError ''disk full''))\<rparr>"

definition services_download_fails :: services where
  "services_download_fails =
     services_ok\<lparr>monitor_and_download_video := (\<lambda>_ _. Inl (ClientError ''NoSuchKey''))\<rparr>"

definition fresh_notebook :: notebook where
  "fresh_notebook = \<lparr>invocation_arn = Unbound, local_file_path = Unbound, trace = []\<rparr>"

text \<open>A service that rejects a prompt of more than 512 characters, as the real one does.\<close>

definition services_validating :: services where
  "services_validating =
     services_ok\<lparr>start_async_invoke :=
       (\<lambda>_ mi _. if 512 < length (text_field (textToVideoParams mi))
                  then Inl (ClientError ''ValidationException'')
                  else Inr [(''invocationArn'', example_arn)])\<rparr>"

text \<open>A prompt of 600 characters, over the documented maximum of 512.\<close>

definition long_prompt :: string where
  "long_prompt = replicate 600 CHR ''a''"

text \<open>A job as submitted, and the three kinds of poll result.\<close>

definition example_job :: job where
  "example_job =
     \<lparr>handle = ''job-123'',
      request_parameters = build_model_input ''dolly forward'' ''UE5H'' 7,
      submission_timestamp = 0, job_status = IN_PROGRESS, output_location = None\<rparr>"

definition in_progress :: poll_result where
  "in_progress = \<lparr>status_of = IN_PROGRESS, failure_reason = None, output_uri = None\<rparr>"

definition completed :: poll_result where
  "completed =
     \<lparr>status_of = COMPLETED, failure_reason = None,
      output_uri = Some ''store://bucket/job-123/output.mp4''\<rparr>"

definition failed :: poll_result where
  "failed =
     \<lparr>status_of = FAILED, failure_reason = Some ''content policy violation'',
      output_uri = None\<rparr>"

text \<open>
  A service that reports \<open>IN_PROGRESS\<close> three times and then \<open>COMPLETED\<close>, and one whose first
  two queries fail and that then reports \<open>FAILED\<close>.
\<close>

definition remote_completes :: "nat \<Rightarrow> query_reply" where
  "remote_completes k = (if k < 3 then Reply in_progress else Reply completed)"




section \<open>Properties of the notebook's cells\<close>

subsection \<open>The trace of the submission cell\<close>

lemma trace_emit: "trace (emit ev nb) = trace nb @ [ev]"
  by (simp add: emit_def)

lemma invocation_arn_emit: "invocation_arn (emit ev nb) = invocation_arn nb"
  by (simp add: emit_def)

lemma submit_new_events:
  "new_events nb (submit svc mi b nb) =
     (let odc = build_output_data_config b in
      case start_async_invoke svc MODEL_ID mi odc of
        Inl e \<Rightarrow> [StartAsyncInvoke MODEL_ID mi odc, LogError e]
      | Inr invocation \<Rightarrow>
          (case map_of invocation ''invocationArn'' of
             None \<Rightarrow> [StartAsyncInvoke MODEL_ID mi odc, LogError (KeyError ''invocationArn'')]
           | Some arn \<Rightarrow>
               [StartAsyncInvoke MODEL_ID mi odc, LogInfo (CHR 0x0A # ''Response:''),
                LogInfoJson invocation, SaveInvocationInfo invocation mi] @
               (case save_invocation_info svc invocation mi of
                  Inl e \<Rightarrow> [LogError e]
                | Inr _ \<Rightarrow> [])))"
  by (simp add: new_events_def submit_def try_body_def Let_def trace_emit
      split: sum.splits option.splits)

lemma submit_trace: "trace (submit svc mi b nb) = trace nb @ new_events nb (submit svc mi b nb)"
  by (simp add: new_events_def submit_def try_body_def Let_def trace_emit
      split: sum.splits option.splits)

lemma submit_invocation_arn:
  "invocation_arn (submit svc mi b nb) =
     (case start_async_invoke svc MODEL_ID mi (build_output_data_config b) of
        Inl e \<Rightarrow> invocation_arn nb
      | Inr invocation \<Rightarrow>
          (case map_of invocation ''invocationArn'' of
             None \<Rightarrow> invocation_arn nb
           | Some arn \<Rightarrow> Bound arn))"
  by (simp add: submit_def try_body_def Let_def invocation_arn_emit split: sum.splits option.splits)

lemma start_in_new_events:
  "StartAsyncInvoke m mi' odc \<in> set (new_events nb (submit svc mi b nb)) \<Longrightarrow>
     m = MODEL_ID \<and> mi' = mi \<and> odc = build_output_data_config b"
  by (auto simp: submit_new_events Let_def split: sum.splits option.splits)

lemma start_calls_new_events: "start_calls (new_events nb (submit svc mi b nb)) = 1"
  by (simp add: submit_new_events start_calls_def Let_def split: sum.splits option.splits)

lemma start_calls_append: "start_calls (xs @ ys) = start_calls xs + start_calls ys"
  by (simp add: start_calls_def)

lemma submission_cell_reaches_try:
  "create_bucket svc b = Inr u \<Longrightarrow> read_bytes svc path = Inr img \<Longrightarrow>
     submission_cell svc b path prompt s nb =
       Inr (submit svc (build_model_input prompt (b64encode svc img) s) b
              (emit (OpenRead path) (emit (CreateBucket b) nb)))"
  by (simp add: submission_cell_def Let_def)

lemma new_events_eqI: "trace nb' = trace nb @ evs \<Longrightarrow> new_events nb nb' = evs"
  by (simp add: new_events_def)

lemma submission_cell_new_events:
  "new_events nb (submit svc mi b (emit (OpenRead path) (emit (CreateBucket b) nb))) =
     CreateBucket b # OpenRead path #
       new_events (emit (OpenRead path) (emit (CreateBucket b) nb))
         (submit svc mi b (emit (OpenRead path) (emit (CreateBucket b) nb)))"
proof (rule new_events_eqI)
  let ?nb2 = "emit (OpenRead path) (emit (CreateBucket b) nb)"
  have "trace (submit svc mi b ?nb2) = trace ?nb2 @ new_events ?nb2 (submit svc mi b ?nb2)"
    by (rule submit_trace)
  also have "trace ?nb2 = trace nb @ [CreateBucket b, OpenRead path]"
    by (simp add: trace_emit)
  finally show "trace (submit svc mi b ?nb2) =
      trace nb @ CreateBucket b # OpenRead path # new_events ?nb2 (submit svc mi b ?nb2)"
    by simp
qed

subsection \<open>The generation parameters\<close>

text \<open>
  C10. In every request the cell submits, the seed is an integer in the inclusive range
  from 0 to 2147483648: \<^verbatim>\<open>random.randint\<close> includes both end points, so 2147483648, which
  is \<open>2 ^ 31\<close> and one more than the largest signed 32-bit integer, is a possible seed. The
  other generation parameters are the constants \<open>durationSeconds = 6\<close>, \<open>fps = 24\<close> and
  \<open>dimension = "1280x720"\<close>.
\<close>

theorem seed_range_and_fixed_parameters:
  "seed_drawn 2147483648 \<and> (2147483648 :: int) = 2 ^ 31 \<and> (2 :: int) ^ 31 - 1 < 2147483648 \<and>
   (\<forall>n. seed_drawn n \<longleftrightarrow> 0 \<le> n \<and> n \<le> 2147483648) \<and>
   (\<forall>svc video_prompt img seed_value bucket nb m mi odc.
      seed_drawn seed_value \<longrightarrow>
      StartAsyncInvoke m mi odc \<in>
        set (new_events nb (submit svc (build_model_input video_prompt img seed_value) bucket nb)) \<longrightarrow>
      seed (videoGenerationConfig mi) = seed_value \<and>
      0 \<le> seed (videoGenerationConfig mi) \<and> seed (videoGenerationConfig mi) \<le> 2147483648 \<and>
      durationSeconds (videoGenerationConfig mi) = 6 \<and>
      fps (videoGenerationConfig mi) = 24 \<and>
      dimension (videoGenerationConfig mi) = ''1280x720'')"
proof -
  have range: "\<And>n. seed_drawn n \<longleftrightarrow> 0 \<le> n \<and> n \<le> 2147483648"
    by (simp add: seed_drawn_def randint_def)
  have sent: "seed (videoGenerationConfig mi) = seed_value \<and>
      0 \<le> seed (videoGenerationConfig mi) \<and> seed (videoGenerationConfig mi) \<le> 2147483648 \<and>
      durationSeconds (videoGenerationConfig mi) = 6 \<and>
      fps (videoGenerationConfig mi) = 24 \<and>
      dimension (videoGenerationConfig mi) = ''1280x720''"
    if d: "seed_drawn seed_value"
      and s: "StartAsyncInvoke m mi odc \<in>
        set (new_events nb (submit svc (build_model_input video_prompt img seed_value) bucket nb))"
    for svc video_prompt img seed_value bucket nb m mi odc
  proof -
    from s have "mi = build_model_input video_prompt img seed_value"
      by (simp add: start_in_new_events)
    with d show ?thesis
      by (simp add: build_model_input_def range)
  qed
  show ?thesis
    using range sent by (intro conjI allI impI) simp_all
qed

theorem seed_range_and_fixed_parameters_witness:
  "seed_drawn 2147483648 \<and>
   StartAsyncInvoke MODEL_ID (build_model_input ''dolly forward'' ''UE5H'' 2147483648)
       (build_output_data_config ''nova-videos'') \<in>
     set (new_events fresh_notebook
       (submit services_ok (build_model_input ''dolly forward'' ''UE5H'' 2147483648)
          ''nova-videos'' fresh_notebook)) \<and>
   seed (videoGenerationConfig (build_model_input ''dolly forward'' ''UE5H'' 2147483648)) = 2147483648 \<and>
   durationSeconds (videoGenerationConfig (build_model_input ''dolly forward'' ''UE5H'' 2147483648)) = 6 \<and>
   fps (videoGenerationConfig (build_model_input ''dolly forward'' ''UE5H'' 2147483648)) = 24 \<and>
   dimension (videoGenerationConfig (build_model_input ''dolly forward'' ''UE5H'' 2147483648)) = ''1280x720''"
proof -
  let ?mi = "build_model_input ''dolly forward'' ''UE5H'' 2147483648"
  have d: "seed_drawn 2147483648"
    by (simp add: seed_drawn_def randint_def)
  have s: "StartAsyncInvoke MODEL_ID ?mi (build_output_data_config ''nova-videos'') \<in>
     set (new_events fresh_notebook (submit services_ok ?mi ''nova-videos'' fresh_notebook))"
    by (simp add: submit_new_events services_ok_def Let_def)
  from seed_range_and_fixed_parameters d s show ?thesis
    by blast
qed

subsection \<open>Submitting twice\<close>

text \<open>
  C8. Submission is not idempotent: two executions of the submission flow with the same
  prompt text, the same image and the same bucket build \<^verbatim>\<open>model_input\<close> values that agree on
  every field except \<open>videoGenerationConfig.seed\<close>, which is drawn anew in each execution,
  so the two requests may differ (they are equal exactly when the seeds are); and each
  execution sends its own request to the service.
\<close>

theorem resubmission_differs_only_in_seed:
  "(let a = build_model_input video_prompt img s1; b = build_model_input video_prompt img s2 in
      taskType a = taskType b \<and>
      textToVideoParams a = textToVideoParams b \<and>
      durationSeconds (videoGenerationConfig a) = durationSeconds (videoGenerationConfig b) \<and>
      fps (videoGenerationConfig a) = fps (videoGenerationConfig b) \<and>
      dimension (videoGenerationConfig a) = dimension (videoGenerationConfig b) \<and>
      seed (videoGenerationConfig a) = s1 \<and> seed (videoGenerationConfig b) = s2 \<and>
      (a = b) = (s1 = s2) \<and>
      hd (new_events nb (submit svc a bucket nb)) =
        StartAsyncInvoke MODEL_ID a (build_output_data_config bucket) \<and>
      hd (new_events nb' (submit svc b bucket nb')) =
        StartAsyncInvoke MODEL_ID b (build_output_data_config bucket) \<and>
      start_calls (trace (submit svc b bucket (submit svc a bucket nb))) =
        start_calls (trace nb) + 2) \<and>
   seed_drawn 0 \<and> seed_drawn 1 \<and>
   build_model_input video_prompt img 0 \<noteq> build_model_input video_prompt img 1"
proof -
  have calls: "start_calls (trace (submit svc y bucket (submit svc x bucket nb))) =
      start_calls (trace nb) + 2" for x y
    by (simp add: submit_trace [of svc y] submit_trace [of svc x bucket nb]
        start_calls_append start_calls_new_events)
  have first: "hd (new_events n (submit svc x bucket n)) =
      StartAsyncInvoke MODEL_ID x (build_output_data_config bucket)" for x n
    by (simp add: submit_new_events Let_def split: sum.splits option.splits)
  show ?thesis
    unfolding Let_def
    by (intro conjI calls first) (simp_all add: build_model_input_def seed_drawn_def randint_def)
qed

subsection \<open>What the submission cell returns\<close>

text \<open>
  C1, as stated, fails: when \<^verbatim>\<open>start_async_invoke\<close> raises, the cell neither fails nor
  yields a handle. It ends normally and \<^verbatim>\<open>invocation_arn\<close> stays unbound.
\<close>

theorem submitter_outcome_counterexample:
  "\<not> isl (submission_cell services_down ''nova-videos'' ''../images/sample-frame-1.png''
            ''dolly forward'' 7 fresh_notebook) \<and>
   invocation_arn (projr (submission_cell services_down ''nova-videos''
       ''../images/sample-frame-1.png'' ''dolly forward'' 7 fresh_notebook)) = Unbound"
  by (simp add: submission_cell_def submit_def try_body_def services_down_def services_ok_def
      fresh_notebook_def emit_def Let_def)

text \<open>
  C1, amended. Once the bucket exists and the image is read, the submission cell always
  ends normally. When \<^verbatim>\<open>start_async_invoke\<close> returns a response with the key
  \<^verbatim>\<open>invocationArn\<close>, \<^verbatim>\<open>invocation_arn\<close> is bound to that value as it is; when the call raises
  or the key is missing, the exception is logged with \<^verbatim>\<open>logger.error\<close> as the last event
  and \<^verbatim>\<open>invocation_arn\<close> keeps the binding it had before the cell. The cell records no job
  status.
\<close>

theorem submitter_outcome:
  assumes "create_bucket svc bucket = Inr u" and "read_bytes svc path = Inr image_bytes"
  shows "\<exists>nb'. submission_cell svc bucket path video_prompt seed_value nb = Inr nb' \<and>
     (let mi = build_model_input video_prompt (b64encode svc image_bytes) seed_value in
      case start_async_invoke svc MODEL_ID mi (build_output_data_config bucket) of
        Inl e \<Rightarrow> invocation_arn nb' = invocation_arn nb \<and> last (trace nb') = LogError e
      | Inr invocation \<Rightarrow>
          (case map_of invocation ''invocationArn'' of
             None \<Rightarrow>
               invocation_arn nb' = invocation_arn nb \<and>
               last (trace nb') = LogError (KeyError ''invocationArn'')
           | Some arn \<Rightarrow> invocation_arn nb' = Bound arn))"
proof -
  let ?mi = "build_model_input video_prompt (b64encode svc image_bytes) seed_value"
  let ?nb2 = "emit (OpenRead path) (emit (CreateBucket bucket) nb)"
  have run: "submission_cell svc bucket path video_prompt seed_value nb =
      Inr (submit svc ?mi bucket ?nb2)"
    using assms by (rule submission_cell_reaches_try)
  have arn: "invocation_arn ?nb2 = invocation_arn nb"
    by (simp add: invocation_arn_emit)
  show ?thesis
    unfolding run Let_def
    by (rule exI [of _ "submit svc ?mi bucket ?nb2"])
      (simp add: submit_invocation_arn arn submit_trace [of svc ?mi bucket ?nb2]
        submit_new_events Let_def split: sum.splits option.splits)
qed

theorem submitter_outcome_witness:
  "create_bucket services_ok ''nova-videos'' = Inr () \<and>
   read_bytes services_ok ''../images/sample-frame-1.png'' = Inr ''PNG'' \<and>
   (\<exists>nb'. submission_cell services_ok ''nova-videos'' ''../images/sample-frame-1.png''
            ''dolly forward'' 7 fresh_notebook = Inr nb' \<and>
          invocation_arn nb' = Bound example_arn)"
proof -
  have c: "create_bucket services_ok ''nova-videos'' = Inr ()"
    by (simp add: services_ok_def)
  have r: "read_bytes services_ok ''../images/sample-frame-1.png'' = Inr ''PNG''"
    by (simp add: services_ok_def)
  from submitter_outcome [OF c r, of "''dolly forward''" 7 fresh_notebook]
  obtain nb' where "submission_cell services_ok ''nova-videos'' ''../images/sample-frame-1.png''
            ''dolly forward'' 7 fresh_notebook = Inr nb'" and "invocation_arn nb' = Bound example_arn"
    by (auto simp: services_ok_def Let_def)
  with c r show ?thesis by blast
qed

subsection \<open>The prompt length\<close>

text \<open>
  C3, as stated, fails: with a prompt of 600 characters and a service that rejects
  prompts over 512 characters, the cell still makes the remote call (the third event of
  the run, after the bucket and the image file) and then ends normally, the service's
  exception logged.
\<close>

theorem prompt_length_counterexample:
  "512 < length long_prompt \<and>
   submission_cell services_validating ''nova-videos'' ''../images/sample-frame-1.png''
       long_prompt 7 fresh_notebook =
     Inr \<lparr>invocation_arn = Unbound, local_file_path = Unbound,
          trace = [CreateBucket ''nova-videos'', OpenRead ''../images/sample-frame-1.png'',
                   StartAsyncInvoke MODEL_ID (build_model_input long_prompt ''UE5H'' 7)
                     (build_output_data_config ''nova-videos''),
                   LogError (ClientError ''ValidationException'')]\<rparr>"
  by (simp add: submission_cell_def submit_def try_body_def services_validating_def
      services_ok_def fresh_notebook_def emit_def Let_def build_model_input_def long_prompt_def)

text \<open>
  C3, amended. The submission cell validates nothing on the client side: for every
  prompt, of any length (also over 512 characters), once the bucket exists and the image
  is read the cell calls \<^verbatim>\<open>start_async_invoke\<close> exactly once, with the prompt unchanged as
  \<open>textToVideoParams.text\<close>, and ends normally; a rejection of the prompt can only come
  from the remote service.
\<close>

theorem prompt_sent_unvalidated:
  assumes "create_bucket svc bucket = Inr u" and "read_bytes svc path = Inr image_bytes"
  shows "\<exists>nb' mi.
     submission_cell svc bucket path video_prompt seed_value nb = Inr nb' \<and>
     new_events nb nb' ! 2 = StartAsyncInvoke MODEL_ID mi (build_output_data_config bucket) \<and>
     text_field (textToVideoParams mi) = video_prompt \<and>
     start_calls (new_events nb nb') = 1"
proof -
  let ?mi = "build_model_input video_prompt (b64encode svc image_bytes) seed_value"
  let ?nb2 = "emit (OpenRead path) (emit (CreateBucket bucket) nb)"
  let ?nb' = "submit svc ?mi bucket ?nb2"
  have run: "submission_cell svc bucket path video_prompt seed_value nb = Inr ?nb'"
    using assms by (rule submission_cell_reaches_try)
  have evs: "new_events nb ?nb' = CreateBucket bucket # OpenRead path # new_events ?nb2 ?nb'"
    by (rule submission_cell_new_events)
  have third: "new_events nb ?nb' ! 2 = StartAsyncInvoke MODEL_ID ?mi (build_output_data_config bucket)"
    unfolding evs by (simp add: submit_new_events Let_def split: sum.splits option.splits)
  have once: "start_calls (new_events nb ?nb') = 1"
    unfolding evs using start_calls_new_events [of ?nb2 svc ?mi bucket]
    by (simp add: start_calls_def)
  have "text_field (textToVideoParams ?mi) = video_prompt"
    by (simp add: build_model_input_def)
  with run third once show ?thesis by blast
qed

theorem prompt_sent_unvalidated_witness:
  "create_bucket services_validating ''nova-videos'' = Inr () \<and>
   read_bytes services_validating ''../images/sample-frame-1.png'' = Inr ''PNG'' \<and>
   512 < length long_prompt \<and>
   (\<exists>nb' mi.
     submission_cell services_validating ''nova-videos'' ''../images/sample-frame-1.png''
       long_prompt 7 fresh_notebook = Inr nb' \<and>
     new_events fresh_notebook nb' ! 2 =
       StartAsyncInvoke MODEL_ID mi (build_output_data_config ''nova-videos'') \<and>
     text_field (textToVideoParams mi) = long_prompt \<and>
     start_calls (new_events fresh_notebook nb') = 1)"
proof -
  have c: "create_bucket services_validating ''nova-videos'' = Inr ()"
    by (simp add: services_validating_def services_ok_def)
  have r: "read_bytes services_validating ''../images/sample-frame-1.png'' = Inr ''PNG''"
    by (simp add: services_validating_def services_ok_def)
  have l: "512 < length long_prompt"
    by (simp add: long_prompt_def)
  from c r l prompt_sent_unvalidated [OF c r, of long_prompt 7 fresh_notebook]
  show ?thesis by blast
qed

subsection \<open>Errors of submission and of the download\<close>

text \<open>
  C4, as stated, fails: the error \<^verbatim>\<open>start_async_invoke\<close> raises is not propagated to the
  caller. The cell ends normally, the error logged.
\<close>

theorem error_propagation_counterexample:
  "submission_cell services_down ''nova-videos'' ''../images/sample-frame-1.png''
       ''dolly forward'' 7 fresh_notebook =
     Inr \<lparr>invocation_arn = Unbound, local_file_path = Unbound,
          trace = [CreateBucket ''nova-videos'', OpenRead ''../images/sample-frame-1.png'',
                   StartAsyncInvoke MODEL_ID (build_model_input ''dolly forward'' ''UE5H'' 7)
                     (build_output_data_config ''nova-videos''),
                   LogError (ClientError ''ServiceUnavailableException'')]\<rparr>"
  by (simp add: submission_cell_def submit_def try_body_def services_down_def
      services_ok_def fresh_notebook_def emit_def Let_def)

text \<open>
  C4, amended. An error of \<^verbatim>\<open>start_async_invoke\<close> is caught by the cell's handler: it is
  reported once through \<^verbatim>\<open>logger.error\<close> right after the single call, nothing else
  happens (no second call, no ledger entry, no new binding), and the statement ends
  normally instead of propagating. An error raised by \<^verbatim>\<open>monitor_and_download_video\<close>
  propagates out of the monitoring cell as it is, after a single call of the helper.
  Neither call is repeated.
\<close>

theorem errors_logged_or_propagated:
  "(start_async_invoke svc MODEL_ID mi (build_output_data_config bucket) = Inl e \<longrightarrow>
      submit svc mi bucket nb =
        nb\<lparr>trace := trace nb @
          [StartAsyncInvoke MODEL_ID mi (build_output_data_config bucket), LogError e]\<rparr>) \<and>
   start_calls (new_events nb (submit svc mi bucket nb)) = 1 \<and>
   (invocation_arn nb = Bound arn \<longrightarrow>
    monitor_and_download_video svc arn ''output'' = Inl e' \<longrightarrow>
      monitoring_cell svc nb =
        Inl (e', nb\<lparr>trace := trace nb @ [MonitorAndDownloadVideo arn ''output'']\<rparr>))"
proof (intro conjI impI)
  assume "start_async_invoke svc MODEL_ID mi (build_output_data_config bucket) = Inl e"
  then show "submit svc mi bucket nb =
      nb\<lparr>trace := trace nb @
        [StartAsyncInvoke MODEL_ID mi (build_output_data_config bucket), LogError e]\<rparr>"
    by (simp add: submit_def try_body_def Let_def emit_def)
next
  show "start_calls (new_events nb (submit svc mi bucket nb)) = 1"
    by (rule start_calls_new_events)
next
  assume "invocation_arn nb = Bound arn"
    and "monitor_and_download_video svc arn ''output'' = Inl e'"
  then show "monitoring_cell svc nb =
      Inl (e', nb\<lparr>trace := trace nb @ [MonitorAndDownloadVideo arn ''output'']\<rparr>)"
    by (simp add: monitoring_cell_def Let_def emit_def)
qed

theorem errors_logged_or_propagated_witness:
  "start_async_invoke services_down MODEL_ID (build_model_input ''dolly forward'' ''UE5H'' 7)
       (build_output_data_config ''nova-videos'') = Inl (ClientError ''ServiceUnavailableException'') \<and>
   submit services_down (build_model_input ''dolly forward'' ''UE5H'' 7) ''nova-videos''
       fresh_notebook =
     fresh_notebook\<lparr>trace :=
       [StartAsyncInvoke MODEL_ID (build_model_input ''dolly forward'' ''UE5H'' 7)
          (build_output_data_config ''nova-videos''),
        LogError (ClientError ''ServiceUnavailableException'')]\<rparr> \<and>
   invocation_arn (fresh_notebook\<lparr>invocation_arn := Bound example_arn\<rparr>) = Bound example_arn \<and>
   monitor_and_download_video services_download_fails example_arn ''output'' =
     Inl (ClientError ''NoSuchKey'') \<and>
   monitoring_cell services_download_fails (fresh_notebook\<lparr>invocation_arn := Bound example_arn\<rparr>) =
     Inl (ClientError ''NoSuchKey'',
          fresh_notebook\<lparr>invocation_arn := Bound example_arn,
                         trace := [MonitorAndDownloadVideo example_arn ''output'']\<rparr>)"
proof -
  let ?mi = "build_model_input ''dolly forward'' ''UE5H'' 7"
  let ?nb = "fresh_notebook\<lparr>invocation_arn := Bound example_arn\<rparr>"
  have s: "start_async_invoke services_down MODEL_ID ?mi
       (build_output_data_config ''nova-videos'') = Inl (ClientError ''ServiceUnavailableException'')"
    by (simp add: services_down_def)
  have a: "invocation_arn ?nb = Bound example_arn"
    by simp
  have m: "monitor_and_download_video services_download_fails example_arn ''output'' =
     Inl (ClientError ''NoSuchKey'')"
    by (simp add: services_download_fails_def)
  have t: "trace fresh_notebook = []" "trace ?nb = []"
    by (simp_all add: fresh_notebook_def)
  from errors_logged_or_propagated
    [of services_down ?mi "''nova-videos''" "ClientError ''ServiceUnavailableException''" fresh_notebook]
    s
  have 1: "submit services_down ?mi ''nova-videos'' fresh_notebook =
     fresh_notebook\<lparr>trace :=
       [StartAsyncInvoke MODEL_ID ?mi (build_output_data_config ''nova-videos''),
        LogError (ClientError ''ServiceUnavailableException'')]\<rparr>"
    by (simp add: t)
  from errors_logged_or_propagated
    [of services_download_fails ?mi "''nova-videos''" _ ?nb example_arn "ClientError ''NoSuchKey''"]
    a m
  have 2: "monitoring_cell services_download_fails ?nb =
     Inl (ClientError ''NoSuchKey'', ?nb\<lparr>trace := [MonitorAndDownloadVideo example_arn ''output'']\<rparr>)"
    by (simp add: t)
  from s 1 a m 2 show ?thesis
    by simp
qed

section \<open>Properties of the helper module's specification\<close>

subsection \<open>Ledger\<close>

lemma ledger_lookup_snoc_submission:
  "ledger_lookup h (led @ [Submission j]) =
     (if handle j = h then Some j else ledger_lookup h led)"
proof (induction led)
  case Nil
  show ?case by simp
next
  case (Cons l led)
  then show ?case by (cases l) (simp_all split: option.splits)
qed

lemma ledger_lookup_snoc_completion:
  "ledger_lookup h' (led @ [Completion h s]) = ledger_lookup h' led"
proof (induction led)
  case Nil
  show ?case by simp
next
  case (Cons l led)
  then show ?case by (cases l) simp_all
qed

lemma ledger_lookup_amend:
  "ledger_lookup h' (map (\<lambda>l. if is_completion_of h l then Completion h s else l) led) =
     ledger_lookup h' led"
proof (induction led)
  case Nil
  show ?case by simp
next
  case (Cons l led)
  then show ?case by (cases l) simp_all
qed

lemma ledger_lookup_update: "ledger_lookup h' (ledger_update h s led) = ledger_lookup h' led"
  by (simp add: ledger_update_def ledger_lookup_amend ledger_lookup_snoc_completion)

lemma line_handle_amend:
  "line_handle (if is_completion_of h l then Completion h s else l) = line_handle l"
  by (cases l) simp_all

lemma handles_update:
  "map line_handle (take (length led) (ledger_update h s led)) = map line_handle led"
  by (simp add: ledger_update_def take_map comp_def line_handle_amend)

lemma length_update: "length led \<le> length (ledger_update h s led)"
  by (simp add: ledger_update_def)

text \<open>
  C9. For every job, \<open>record(job)\<close> followed immediately by a lookup by the job's handle
  returns the recorded entry unchanged, whatever the ledger held before.
\<close>

theorem record_then_lookup:
  "ledger_lookup (handle j) (ledger_record j led) = Some j \<and>
   ledger_lookup (handle j) (entries (record_job True j ls)) = Some j"
  by (simp add: ledger_record_def record_job_def ledger_apply_def ledger_lookup_snoc_submission)

text \<open>
  C7. A failure of the ledger never stops the caller: when \<^verbatim>\<open>save_invocation_info\<close> raises in
  the submission cell, the exception is logged and the cell ends as it does when the
  ledger succeeds, with \<^verbatim>\<open>invocation_arn\<close> bound for the cells that follow. The ledger of
  the specification is append-only and keyed by handle: \<open>record\<close> and \<open>update\<close> never
  shorten it, every line stays at its place under its handle, \<open>update\<close> changes no
  submission entry, and a failed write leaves the entries as they are and logs a
  \<open>LedgerError\<close>.
\<close>

theorem ledger_never_blocks_nor_deletes:
  "(start_async_invoke svc MODEL_ID mi (build_output_data_config bucket) = Inr invocation \<longrightarrow>
    map_of invocation ''invocationArn'' = Some arn \<longrightarrow>
    save_invocation_info svc invocation mi = Inl e \<longrightarrow>
      submit svc mi bucket nb =
        emit (LogError e) (submit (svc\<lparr>save_invocation_info := (\<lambda>_ _. Inr ())\<rparr>) mi bucket nb) \<and>
      invocation_arn (submit svc mi bucket nb) = Bound arn) \<and>
   length (entries ls) \<le> length (entries (record_job written j ls)) \<and>
   take (length (entries ls)) (entries (record_job written j ls)) = entries ls \<and>
   length (entries ls) \<le> length (entries (update_job written h s ls)) \<and>
   map line_handle (take (length (entries ls)) (entries (update_job written h s ls))) =
     map line_handle (entries ls) \<and>
   ledger_lookup h' (entries (update_job written h s ls)) = ledger_lookup h' (entries ls) \<and>
   entries (record_job False j ls) = entries ls \<and>
   ledger_errors (record_job False j ls) = ledger_errors ls @ [''LedgerError: record''] \<and>
   entries (update_job False h s ls) = entries ls \<and>
   ledger_errors (update_job False h s ls) = ledger_errors ls @ [''LedgerError: update'']"
proof -
  have code: "submit svc mi bucket nb =
        emit (LogError e) (submit (svc\<lparr>save_invocation_info := (\<lambda>_ _. Inr ())\<rparr>) mi bucket nb) \<and>
      invocation_arn (submit svc mi bucket nb) = Bound arn"
    if "start_async_invoke svc MODEL_ID mi (build_output_data_config bucket) = Inr invocation"
      and "map_of invocation ''invocationArn'' = Some arn"
      and "save_invocation_info svc invocation mi = Inl e"
    using that by (simp add: submit_def try_body_def Let_def emit_def)
  have rec: "length (entries ls) \<le> length (entries (record_job written j ls)) \<and>
      take (length (entries ls)) (entries (record_job written j ls)) = entries ls"
    by (simp add: record_job_def ledger_apply_def ledger_record_def)
  have upd: "length (entries ls) \<le> length (entries (update_job written h s ls)) \<and>
      map line_handle (take (length (entries ls)) (entries (update_job written h s ls))) =
        map line_handle (entries ls) \<and>
      ledger_lookup h' (entries (update_job written h s ls)) = ledger_lookup h' (entries ls)"
    by (simp add: update_job_def ledger_apply_def length_update handles_update
        ledger_lookup_update)
  have fail: "entries (record_job False j ls) = entries ls \<and>
      ledger_errors (record_job False j ls) = ledger_errors ls @ [''LedgerError: record''] \<and>
      entries (update_job False h s ls) = entries ls \<and>
      ledger_errors (update_job False h s ls) = ledger_errors ls @ [''LedgerError: update'']"
    by (simp add: record_job_def update_job_def ledger_apply_def)
  from code rec upd fail show ?thesis by blast
qed

theorem ledger_never_blocks_nor_deletes_witness:
  "start_async_invoke services_ledger_fails MODEL_ID (build_model_input ''dolly forward'' ''UE5H'' 7)
       (build_output_data_config ''nova-videos'') = Inr [(''invocationArn'', example_arn)] \<and>
   map_of [(''invocationArn'', example_arn)] ''invocationArn'' = Some example_arn \<and>
   save_invocation_info services_ledger_fails [(''invocationArn'', example_arn)]
       (build_model_input ''dolly forward'' ''UE5H'' 7) = Inl (OSError ''disk full'') \<and>
   submit services_ledger_fails (build_model_input ''dolly forward'' ''UE5H'' 7) ''nova-videos''
       fresh_notebook =
     emit (LogError (OSError ''disk full''))
       (submit services_ok (build_model_input ''dolly forward'' ''UE5H'' 7) ''nova-videos''
          fresh_notebook) \<and>
   invocation_arn (submit services_ledger_fails (build_model_input ''dolly forward'' ''UE5H'' 7)
       ''nova-videos'' fresh_notebook) = Bound example_arn"
proof -
  let ?mi = "build_model_input ''dolly forward'' ''UE5H'' 7"
  have s: "start_async_invoke services_ledger_fails MODEL_ID ?mi
       (build_output_data_config ''nova-videos'') = Inr [(''invocationArn'', example_arn)]"
    by (simp add: services_ledger_fails_def services_ok_def)
  have k: "map_of [(''invocationArn'', example_arn)] ''invocationArn'' = Some example_arn"
    by simp
  have l: "save_invocation_info services_ledger_fails [(''invocationArn'', example_arn)] ?mi =
      Inl (OSError ''disk full'')"
    by (simp add: services_ledger_fails_def)
  have ok: "services_ledger_fails\<lparr>save_invocation_info := (\<lambda>_ _. Inr ())\<rparr> = services_ok"
    by (simp add: services_ledger_fails_def services_ok_def)
  note run = ledger_never_blocks_nor_deletes
    [of services_ledger_fails ?mi "''nova-videos''" "[(''invocationArn'', example_arn)]"
      example_arn "OSError ''disk full''" fresh_notebook, THEN conjunct1, rule_format, OF s k l]
  from s k l run [unfolded ok] show ?thesis by blast
qed

subsection \<open>The job state machine and the poll sequence\<close>

lemma poller_update_terminal: "terminal (job_status j) \<Longrightarrow> poller_update r j = j"
  by (simp add: poller_update_def)

lemma job_history_terminal:
  "terminal (job_status j) \<Longrightarrow> job_history j rs = replicate (Suc (length rs)) j"
  by (induction rs) (simp_all add: poller_update_terminal)

lemma job_history_unfold:
  "job_history j rs =
     j # (case rs of [] \<Rightarrow> [] | r # rs' \<Rightarrow> job_history (poller_update r j) rs')"
  by (cases rs) simp_all

lemma terminal_transitions_replicate:
  "terminal s \<Longrightarrow> terminal_transitions (replicate n s) = 0"
proof (induction n)
  case 0
  show ?case by simp
next
  case (Suc n)
  then show ?case by (cases n) auto
qed

lemma reenters_replicate: "\<not> reenters_in_progress (replicate n s)"
proof (induction n)
  case 0
  show ?case by simp
next
  case (Suc n)
  then show ?case by (cases n; cases s) auto
qed

lemma terminal_transitions_history:
  "terminal_transitions (map job_status (job_history j rs)) \<le> 1"
proof (induction rs arbitrary: j)
  case Nil
  show ?case by simp
next
  case (Cons r rs)
  let ?j' = "poller_update r j"
  obtain tl where h: "job_history ?j' rs = ?j' # tl"
    using job_history_unfold [of ?j' rs] by blast
  show ?case
  proof (cases "terminal (job_status ?j')")
    case True
    then have "terminal_transitions (map job_status (job_history ?j' rs)) = 0"
      by (simp add: job_history_terminal terminal_transitions_replicate del: replicate_Suc)
    then show ?thesis
      using h by simp
  next
    case False
    with Cons.IH [of ?j'] h show ?thesis by simp
  qed
qed

lemma no_reentry_history:
  "\<not> reenters_in_progress (map job_status (job_history j rs))"
proof (induction rs arbitrary: j)
  case Nil
  show ?case by simp
next
  case (Cons r rs)
  let ?j' = "poller_update r j"
  obtain tl where h: "job_history ?j' rs = ?j' # tl"
    using job_history_unfold [of ?j' rs] by blast
  have "terminal (job_status j) \<Longrightarrow> job_status ?j' \<noteq> IN_PROGRESS"
    by (auto simp: poller_update_terminal)
  with Cons.IH [of ?j'] h show ?case by auto
qed

lemma history_stays_terminal:
  "terminal (job_status j) \<Longrightarrow> j' \<in> set (job_history j rs) \<Longrightarrow> j' = j"
  by (auto simp: job_history_terminal)

lemma poll_terminal_is_last:
  "poll remote attempts polls k = (rs, e, k') \<Longrightarrow> i < length rs \<Longrightarrow>
     terminal (status_of (rs ! i)) \<Longrightarrow> Suc i = length rs \<and> e = Terminal"
proof (induction polls arbitrary: k rs e k' i)
  case 0
  then show ?case by simp
next
  case (Suc polls)
  show ?case
  proof (cases "query_with_retry remote attempts k")
    case (Pair q k1)
    show ?thesis
    proof (cases q)
      case None
      with Pair Suc.prems show ?thesis by simp
    next
      case (Some r)
      show ?thesis
      proof (cases "terminal (status_of r)")
        case True
        with Pair Some Suc.prems show ?thesis by auto
      next
        case False
        obtain rs1 e1 k2 where rest: "poll remote attempts polls k1 = (rs1, e1, k2)"
          by (cases "poll remote attempts polls k1") auto
        with Pair Some False Suc.prems(1) have eq: "rs = r # rs1" "e = e1"
          by auto
        show ?thesis
        proof (cases i)
          case 0
          with eq False Suc.prems(3) show ?thesis by simp
        next
          case (Suc i')
          with eq Suc.prems(2,3) have "i' < length rs1" "terminal (status_of (rs1 ! i'))"
            by auto
          from Suc.IH [OF rest this] eq Suc show ?thesis by simp
        qed
      qed
    qed
  qed
qed


lemma poll_length: "poll remote attempts polls k = (rs, e, k') \<Longrightarrow> length rs \<le> polls"
proof (induction polls arbitrary: k rs e k')
  case 0
  then show ?case by simp
next
  case (Suc polls)
  show ?case
  proof (cases "query_with_retry remote attempts k")
    case (Pair q k1)
    show ?thesis
    proof (cases q)
      case None
      with Pair Suc.prems show ?thesis by simp
    next
      case (Some r)
      obtain rs1 e1 k2 where rest: "poll remote attempts polls k1 = (rs1, e1, k2)"
        by (cases "poll remote attempts polls k1") auto
      from Suc.IH [OF rest] Pair Some rest Suc.prems show ?thesis
        by (auto split: if_splits)
    qed
  qed
qed







text \<open>
  C2. A job goes from \<open>IN_PROGRESS\<close> to a terminal state at most once and never re-enters
  \<open>IN_PROGRESS\<close>: whatever poll results are applied to it, its status sequence has at most
  one step into a terminal state and no step out of one, and a terminal job stays the
  job it is. In the sequence the poller produces for a handle, a terminal poll result is
  the last one: the sequence is exhausted after it, so no later value reports another
  status.
\<close>

theorem job_terminal_once_and_polls_exhausted:
  "terminal_transitions (map job_status (job_history j rs)) \<le> 1 \<and>
   \<not> reenters_in_progress (map job_status (job_history j rs)) \<and>
   (\<forall>j'. terminal (job_status j) \<longrightarrow> j' \<in> set (job_history j rs) \<longrightarrow> j' = j) \<and>
   (\<forall>i. poll remote attempts polls k = (ps, e, k') \<longrightarrow> i < length ps \<longrightarrow>
        terminal (status_of (ps ! i)) \<longrightarrow> Suc i = length ps \<and> e = Terminal)"
  using terminal_transitions_history [of j rs] no_reentry_history [of j rs]
    history_stays_terminal [of j _ rs] poll_terminal_is_last [of remote attempts polls k ps e k']
  by blast

theorem job_terminal_once_and_polls_exhausted_witness:
  "terminal (job_status (poller_update completed example_job)) \<and>
   poller_update completed example_job \<in>
     set (job_history (poller_update completed example_job) [failed, in_progress]) \<and>
   job_history (poller_update completed example_job) [failed, in_progress] =
     replicate 3 (poller_update completed example_job) \<and>
   poll remote_completes 3 10 0 =
     ([in_progress, in_progress, in_progress, completed], Terminal, 4) \<and>
   3 < length [in_progress, in_progress, in_progress, completed] \<and>
   terminal (status_of ([in_progress, in_progress, in_progress, completed] ! 3)) \<and>
   Suc 3 = length [in_progress, in_progress, in_progress, completed]"
proof -
  let ?j = "poller_update completed example_job"
  let ?ps = "[in_progress, in_progress, in_progress, completed]"
  have t: "terminal (job_status ?j)"
    by (simp add: poller_update_def completed_def example_job_def)
  have h: "job_history ?j [failed, in_progress] = [?j, ?j, ?j]"
    using t by (simp add: poller_update_def)
  have m: "?j \<in> set (job_history ?j [failed, in_progress])"
    by (simp add: h)
  have p: "poll remote_completes 3 10 0 = (?ps, Terminal, 4)"
    by (simp add: eval_nat_numeral remote_completes_def in_progress_def completed_def)
  have i: "3 < length ?ps"
    by simp
  have s: "terminal (status_of (?ps ! 3))"
    by (simp add: completed_def eval_nat_numeral)
  note all = job_terminal_once_and_polls_exhausted
    [of ?j "[failed, in_progress]" remote_completes 3 10 0 ?ps Terminal 4]
  from all t m have "?j = ?j" by blast
  moreover from all p i s have "Suc 3 = length ?ps" by blast
  moreover have "[?j, ?j, ?j] = replicate 3 ?j" by (simp add: eval_nat_numeral)
  ultimately show ?thesis using t m h p i s by simp
qed






end
